theory Spec2Isabelle
  imports Main "HOL-Library.Word" "HOL-Library.Sublist"
begin

section \<open>Data model of rollout/context.go\<close>

text \<open>
  The Go structs of the Kubernetes and Argo Rollouts API packages are declared outside
  \<^verbatim>\<open>rollout/context.go\<close>; the records below carry the fields that file reads or
  writes, plus a few neighbouring fields of the live objects, so that a statement
  "nothing else is touched" has something to range over. A Go \<^verbatim>\<open>map[string]string\<close>
  is a partial function (a nil map reads like the empty one), a pointer that the code
  tests against nil or that its comments allow to be nil is an \<open>option\<close>, a slice of
  object pointers is a list of the objects.
\<close>

type_synonym stringMap = "string \<rightharpoonup> string"

subsection \<open>Replica sets (k8s.io/api/apps/v1, k8s.io/apimachinery meta/v1)\<close>

record ObjectMeta =
  Name :: string
  Namespace :: string
  ResourceVersion :: string
  Labels :: stringMap
  Annotations :: stringMap
  OwnerReferences :: "string list"

record PodTemplateSpec =
  tmpl_ObjectMeta :: ObjectMeta
  tmpl_Spec :: string   \<comment> \<open>the pod spec (containers and so on), opaque here\<close>

record LabelSelector =
  MatchLabels :: stringMap

record ReplicaSetSpec =
  Replicas :: "32 word option"   \<comment> \<open>\<^verbatim>\<open>*int32\<close>\<close>
  MinReadySeconds :: "32 word"
  Selector :: "LabelSelector option"   \<comment> \<open>\<^verbatim>\<open>*metav1.LabelSelector\<close>\<close>
  Template :: PodTemplateSpec

record ReplicaSetStatus =
  rss_Replicas :: "32 word"
  rss_ReadyReplicas :: "32 word"

record ReplicaSet =
  rs_ObjectMeta :: ObjectMeta
  rs_Spec :: ReplicaSetSpec
  rs_Status :: ReplicaSetStatus

subsection \<open>Rollouts, analysis runs and experiments (pkg/apis/rollouts/v1alpha1)\<close>

text \<open>
  Modelled from the spec: the pause reasons. The type \<^verbatim>\<open>v1alpha1.PauseReason\<close> is
  declared outside this file; the spec names a user pause (the flag \<^verbatim>\<open>spec.paused\<close>,
  not a condition), pausing steps of either strategy and inconclusive verdicts as the reasons recorded in
  the pause-condition list \<open>{reason, start-time}\<close>.
\<close>

datatype PauseReason =
    PauseReasonInconclusiveAnalysis
  | PauseReasonInconclusiveExperiment
  | PauseReasonCanaryPauseStep
  | PauseReasonBlueGreenPause

record PauseCondition =
  Reason :: PauseReason
  StartTime :: nat

record CanaryStrategy =
  canary_Steps :: "string list"

record BlueGreenStrategy =
  ActiveService :: string

record RolloutStrategy =
  BlueGreen :: "BlueGreenStrategy option"
  Canary :: "CanaryStrategy option"

record RolloutSpec =
  Paused :: bool
  Strategy :: RolloutStrategy
  RestartAt :: "nat option"

record RolloutAnalysisRunStatus =
  rars_Name :: string
  rars_Status :: string    \<comment> \<open>an \<^verbatim>\<open>AnalysisPhase\<close>, a Go string type\<close>
  rars_Message :: string

record CanaryStatus =
  CurrentStepAnalysisRunStatus :: "RolloutAnalysisRunStatus option"
  CurrentBackgroundAnalysisRunStatus :: "RolloutAnalysisRunStatus option"
  CurrentExperiment :: string

record BlueGreenStatus =
  PrePromotionAnalysisRunStatus :: "RolloutAnalysisRunStatus option"
  PostPromotionAnalysisRunStatus :: "RolloutAnalysisRunStatus option"

record RolloutStatus =
  PauseConditions :: "PauseCondition list"
  CurrentStepIndex :: "32 word option"
  RestartedAt :: "nat option"
  status_Canary :: CanaryStatus
  status_BlueGreen :: BlueGreenStatus

record Rollout =
  ro_ObjectMeta :: ObjectMeta
  ro_Spec :: RolloutSpec
  ro_Status :: RolloutStatus

record AnalysisRunStatus =
  Phase :: string
  Message :: string

record AnalysisRun =
  ar_Name :: string
  ar_Status :: AnalysisRunStatus

record CurrentAnalysisRuns =
  BlueGreenPrePromotion :: "AnalysisRun option"
  BlueGreenPostPromotion :: "AnalysisRun option"
  CanaryStep :: "AnalysisRun option"
  CanaryBackground :: "AnalysisRun option"

record Experiment =
  ex_Name :: string
  ex_Phase :: string

subsection \<open>The reconciliation context\<close>

text \<open>
  \<^verbatim>\<open>type rolloutContext struct\<close>. The embedded \<^verbatim>\<open>reconcilerBase\<close> (the clients and
  informers) is kept apart, see below; \<open>log\<close> collects the lines the methods log;
  \<^verbatim>\<open>pauseContext\<close> and \<^verbatim>\<open>stepPluginContext\<close> are declared in other files and are
  opaque here.
\<close>

record rolloutContext =
  log :: "string list"
  rollout :: Rollout
  newRollout :: "Rollout option"
  newRS :: "ReplicaSet option"
  stableRS :: "ReplicaSet option"
  allRSs :: "ReplicaSet list"
  olderRSs :: "ReplicaSet list"
  otherRSs :: "ReplicaSet list"
  currentArs :: CurrentAnalysisRuns
  otherArs :: "AnalysisRun list"
  currentEx :: "Experiment option"
  otherExs :: "Experiment list"
  newStatus :: RolloutStatus
  pauseContext :: "PauseReason list"
  stepPluginContext :: "string list"
  targetsVerified :: "bool option"

section \<open>The pause query\<close>

text \<open>
  Modelled from the spec: \<^verbatim>\<open>getPauseCondition(rollout, reason)\<close>, a helper of the package
  that is defined in another file. By the spec a rollout's status holds a list of pause conditions
  \<open>{reason, start-time}\<close>, zero or more of them active at once; the helper returns the
  condition recorded for the reason, or nil.
\<close>

definition getPauseCondition :: "Rollout \<Rightarrow> PauseReason \<Rightarrow> PauseCondition option" where
  "getPauseCondition ro reason =
     find (\<lambda>cond. Reason cond = reason) (PauseConditions (ro_Status ro))"

text \<open>
  \<^verbatim>\<open>func (c *rolloutContext) haltProgress() string\<close>. The method has a pointer receiver;
  the model returns the context next to the reason, as the method leaves it.
\<close>

definition haltProgress :: "rolloutContext \<Rightarrow> string \<times> rolloutContext" where
  "haltProgress c =
     (if Paused (ro_Spec (rollout c)) then (''user paused'', c)
      else if getPauseCondition (rollout c) PauseReasonInconclusiveAnalysis \<noteq> None
        then (''inconclusive analysis'', c)
      else ('''', c))"

section \<open>Errors and panics\<close>

text \<open>
  A Go \<^verbatim>\<open>error\<close> value is either a plain message or an error made by
  \<^verbatim>\<open>fmt.Errorf\<close> with the verb \<^verbatim>\<open>%w\<close>: the formatted message and the wrapped error.
  A nil pointer dereference is a run-time panic; it is the \<open>Inl\<close> result of the
  functions that can run into one.
\<close>

datatype error = ErrorString string | WrapError string error

fun Error :: "error \<Rightarrow> string" where
  "Error (ErrorString msg) = msg"
| "Error (WrapError msg err) = msg"

fun Unwrap :: "error \<Rightarrow> error option" where
  "Unwrap (ErrorString msg) = None"
| "Unwrap (WrapError msg err) = Some err"

text \<open>\<^verbatim>\<open>fmt.Errorf("<prefix> %s: %w", name, err)\<close>, the one shape the file uses.\<close>

definition Errorf :: "string \<Rightarrow> string \<Rightarrow> error \<Rightarrow> error" where
  "Errorf pre name err = WrapError (pre @ '' '' @ name @ '': '' @ Error err) err"

datatype panic = NilPointerDereference

section \<open>The current experiment and the current analysis runs\<close>

text \<open>\<^verbatim>\<open>func (c *rolloutContext) SetRestartedAt()\<close>\<close>

definition SetRestartedAt :: "rolloutContext \<Rightarrow> rolloutContext" where
  "SetRestartedAt c =
     c\<lparr> newStatus := (newStatus c)\<lparr> RestartedAt := RestartAt (ro_Spec (rollout c)) \<rparr> \<rparr>"

text \<open>
  The loop of \<^verbatim>\<open>SetCurrentExperiment\<close> over \<^verbatim>\<open>c.otherExs\<close>: at the first entry
  whose name is the experiment's it logs the rescue, cuts the entry out
  (\<^verbatim>\<open>append(c.otherExs[:i], c.otherExs[i+1:]...)\<close>) and breaks. The result is the
  slice and the lines logged.
\<close>

fun rescueLoop :: "string \<Rightarrow> Experiment list \<Rightarrow> Experiment list \<times> string list" where
  "rescueLoop name [] = ([], [])"
| "rescueLoop name (otherEx # rest) =
     (if ex_Name otherEx = name
      then (rest, [''Rescued '' @ name @ '' from inadvertent termination''])
      else (case rescueLoop name rest of (rest', logged) \<Rightarrow> (otherEx # rest', logged)))"

text \<open>
  \<^verbatim>\<open>func (c *rolloutContext) SetCurrentExperiment(ex *v1alpha1.Experiment)\<close>.
  The method reads \<^verbatim>\<open>ex.Name\<close> without a nil test, so a nil \<open>ex\<close> panics.
\<close>

definition SetCurrentExperiment ::
    "Experiment option \<Rightarrow> rolloutContext \<Rightarrow> panic + rolloutContext" where
  "SetCurrentExperiment ex c =
     (case ex of
        None \<Rightarrow> Inl NilPointerDereference
      | Some e \<Rightarrow>
          (case rescueLoop (ex_Name e) (otherExs c) of
             (others, logged) \<Rightarrow>
               Inr (c\<lparr> currentEx := Some e,
                       newStatus := (newStatus c)
                         \<lparr> status_Canary := (status_Canary (newStatus c))
                              \<lparr> CurrentExperiment := ex_Name e \<rparr> \<rparr>,
                       otherExs := others,
                       log := log c @ logged \<rparr>)))"

text \<open>The status entry the method writes for a current run: name, phase and message.\<close>

definition runStatus :: "AnalysisRun \<Rightarrow> RolloutAnalysisRunStatus" where
  "runStatus ar =
     \<lparr> rars_Name = ar_Name ar,
       rars_Status = Phase (ar_Status ar),
       rars_Message = Message (ar_Status ar) \<rparr>"

text \<open>
  \<^verbatim>\<open>func (c *rolloutContext) SetCurrentAnalysisRuns(currARs analysisutil.CurrentAnalysisRuns)\<close>.
  Each slot is written only under its \<^verbatim>\<open>!= nil\<close> test; the blue-green slots are read
  only when the canary strategy is nil.
\<close>

definition setCanaryRuns :: "CurrentAnalysisRuns \<Rightarrow> CanaryStatus \<Rightarrow> CanaryStatus" where
  "setCanaryRuns currARs st =
     (let st1 = (case CanaryBackground currARs of
                   None \<Rightarrow> st
                 | Some currBackgroundAr \<Rightarrow>
                     st\<lparr> CurrentBackgroundAnalysisRunStatus := Some (runStatus currBackgroundAr) \<rparr>)
      in (case CanaryStep currARs of
            None \<Rightarrow> st1
          | Some currStepAr \<Rightarrow>
              st1\<lparr> CurrentStepAnalysisRunStatus := Some (runStatus currStepAr) \<rparr>))"

definition setBlueGreenRuns :: "CurrentAnalysisRuns \<Rightarrow> BlueGreenStatus \<Rightarrow> BlueGreenStatus" where
  "setBlueGreenRuns currARs st =
     (let st1 = (case BlueGreenPrePromotion currARs of
                   None \<Rightarrow> st
                 | Some currPrePromoAr \<Rightarrow>
                     st\<lparr> PrePromotionAnalysisRunStatus := Some (runStatus currPrePromoAr) \<rparr>)
      in (case BlueGreenPostPromotion currARs of
            None \<Rightarrow> st1
          | Some currPostPromoAr \<Rightarrow>
              st1\<lparr> PostPromotionAnalysisRunStatus := Some (runStatus currPostPromoAr) \<rparr>))"

definition SetCurrentAnalysisRuns :: "CurrentAnalysisRuns \<Rightarrow> rolloutContext \<Rightarrow> rolloutContext" where
  "SetCurrentAnalysisRuns currARs c =
     (let c1 = c\<lparr> currentArs := currARs \<rparr>
      in if Canary (Strategy (ro_Spec (rollout c1))) \<noteq> None
         then c1\<lparr> newStatus := (newStatus c1)
                     \<lparr> status_Canary := setCanaryRuns currARs (status_Canary (newStatus c1)) \<rparr> \<rparr>
         else if BlueGreen (Strategy (ro_Spec (rollout c1))) \<noteq> None
         then c1\<lparr> newStatus := (newStatus c1)
                     \<lparr> status_BlueGreen := setBlueGreenRuns currARs (status_BlueGreen (newStatus c1)) \<rparr> \<rparr>
         else c1)"

section \<open>The patch generator\<close>

text \<open>
  The constants of \<^verbatim>\<open>v1alpha1\<close> and \<^verbatim>\<open>utils/annotations\<close> that the generator names
  are declared in those packages, not in this file; they are parameters of the model.
\<close>

record keys =
  RolloutLabel :: string
  DefaultRolloutUniqueLabelKey :: string
  DefaultReplicaSetScaleDownDeadlineAnnotationKey :: string
  ReplicaSetFinalStatusKey :: string

text \<open>
  The test both \<^verbatim>\<open>range\<close> loops of \<^verbatim>\<open>generateBasePatch\<close> apply to a key:
  \<^verbatim>\<open>strings.HasPrefix\<close> with the rollout label and the two literal prefixes.
\<close>

definition hasOwnedPrefix :: "keys \<Rightarrow> string \<Rightarrow> bool" where
  "hasOwnedPrefix K key =
     (prefix (RolloutLabel K) key \<or>
      prefix ''argo-rollouts.argoproj.io'' key \<or>
      prefix ''experiment.argoproj.io'' key)"

text \<open>
  \<^verbatim>\<open>if _, found := src[key]; found { dst[key] = src[key] }\<close>
\<close>

definition copyIfFound :: "string \<Rightarrow> stringMap \<Rightarrow> stringMap \<Rightarrow> stringMap" where
  "copyIfFound key src dst = (case src key of None \<Rightarrow> dst | Some v \<Rightarrow> dst(key \<mapsto> v))"

text \<open>
  \<^verbatim>\<open>for key, value := range src { if keep(key) { dst[key] = value } }\<close>:
  every entry of \<open>src\<close> is visited once, in no fixed order, and each iteration writes its
  own key only, so the map after the loop is, key by key:
\<close>

definition rangeCopy :: "(string \<Rightarrow> bool) \<Rightarrow> stringMap \<Rightarrow> stringMap \<Rightarrow> stringMap" where
  "rangeCopy keep src dst =
     (\<lambda>key. case src key of
               None \<Rightarrow> dst key
             | Some v \<Rightarrow> if keep key then Some v else dst key)"

text \<open>The zero values \<^verbatim>\<open>metav1.ObjectMeta{}\<close> and \<^verbatim>\<open>appsv1.ReplicaSet{}\<close>.\<close>

definition emptyObjectMeta :: ObjectMeta where
  "emptyObjectMeta =
     \<lparr> Name = '''', Namespace = '''', ResourceVersion = '''',
       Labels = Map.empty, Annotations = Map.empty, OwnerReferences = [] \<rparr>"

definition emptyReplicaSet :: ReplicaSet where
  "emptyReplicaSet =
     \<lparr> rs_ObjectMeta = emptyObjectMeta,
       rs_Spec = \<lparr> Replicas = None, MinReadySeconds = 0, Selector = None,
                   Template = \<lparr> tmpl_ObjectMeta = emptyObjectMeta, tmpl_Spec = '''' \<rparr> \<rparr>,
       rs_Status = \<lparr> rss_Replicas = 0, rss_ReadyReplicas = 0 \<rparr> \<rparr>"

text \<open>
  \<^verbatim>\<open>func (c *rolloutContext) generateBasePatch(rs *appsv1.ReplicaSet) appsv1.ReplicaSet\<close>.
  The method dereferences \<open>rs\<close> and \<^verbatim>\<open>rs.Spec.Selector\<close> without a nil test.
\<close>

definition generateBasePatch :: "keys \<Rightarrow> ReplicaSet option \<Rightarrow> panic + ReplicaSet" where
  "generateBasePatch K rsp =
     (case rsp of
        None \<Rightarrow> Inl NilPointerDereference
      | Some rs \<Rightarrow>
          (case Selector (rs_Spec rs) of
             None \<Rightarrow> Inl NilPointerDereference
           | Some sel \<Rightarrow>
               (let uniq = DefaultRolloutUniqueLabelKey K;
                    deadline = DefaultReplicaSetScaleDownDeadlineAnnotationKey K;
                    rsLabels = Labels (rs_ObjectMeta rs);
                    rsAnnotations = Annotations (rs_ObjectMeta rs);
                    patchLabels =
                      rangeCopy (hasOwnedPrefix K) rsLabels
                        (copyIfFound uniq rsLabels Map.empty);
                    patchAnnotations =
                      rangeCopy (hasOwnedPrefix K) rsAnnotations
                        (copyIfFound deadline rsAnnotations Map.empty);
                    patchMatchLabels = copyIfFound uniq (MatchLabels sel) Map.empty
                in Inr (emptyReplicaSet
                     \<lparr> rs_ObjectMeta := emptyObjectMeta
                          \<lparr> Labels := patchLabels, Annotations := patchAnnotations \<rparr>,
                       rs_Spec := (rs_Spec emptyReplicaSet)
                          \<lparr> Replicas := Replicas (rs_Spec rs),
                            Selector := Some \<lparr> MatchLabels = patchMatchLabels \<rparr>,
                            Template := (Template (rs_Spec emptyReplicaSet))
                              \<lparr> tmpl_ObjectMeta := emptyObjectMeta
                                   \<lparr> Labels := Labels (tmpl_ObjectMeta (Template (rs_Spec rs))),
                                     Annotations :=
                                       Annotations (tmpl_ObjectMeta (Template (rs_Spec rs))) \<rparr> \<rparr> \<rparr> \<rparr>))))"

text \<open>
  \<^verbatim>\<open>func (c *rolloutContext) generateRSFinalStatusPatch(status string) *appsv1.ReplicaSet\<close>
\<close>

definition generateRSFinalStatusPatch :: "keys \<Rightarrow> rolloutContext \<Rightarrow> string \<Rightarrow> panic + ReplicaSet" where
  "generateRSFinalStatusPatch K c status =
     (case generateBasePatch K (newRS c) of
        Inl p \<Rightarrow> Inl p
      | Inr patch \<Rightarrow>
          Inr (patch\<lparr> rs_ObjectMeta := (rs_ObjectMeta patch)
                 \<lparr> Annotations :=
                      (Annotations (rs_ObjectMeta patch))(ReplicaSetFinalStatusKey K \<mapsto> status) \<rparr> \<rparr>))"

section \<open>Writing the final status of the new replica set\<close>

text \<open>
  What \<^verbatim>\<open>setFinalRSStatus\<close> calls outside the file, as parameters over a state \<open>'w\<close> of
  the world outside the context (the store behind the API server and the informer's local
  cache):
  \<^item> \<^verbatim>\<open>diff.CreateTwoWayMergePatch(orig, new, dataStruct)\<close>, the patch bytes or an error;
  \<^item> \<^verbatim>\<open>c.kubeclientset.AppsV1().ReplicaSets(namespace).Patch(ctx, name, ..., patch, ...)\<close>,
    one request to the store: the updated object or an error, and the world after it;
  \<^item> \<^verbatim>\<open>c.replicaSetInformer.GetIndexer().Update(obj)\<close>, one write to the local cache.
\<close>

record 'w reconcilerBase =
  CreateTwoWayMergePatch :: "ReplicaSet \<Rightarrow> ReplicaSet \<Rightarrow> ReplicaSet \<Rightarrow> error + string"
  Patch :: "string \<Rightarrow> string \<Rightarrow> string \<Rightarrow> 'w \<Rightarrow> (error + ReplicaSet) \<times> 'w"
  IndexerUpdate :: "ReplicaSet \<Rightarrow> 'w \<Rightarrow> error option \<times> 'w"

text \<open>
  \<^verbatim>\<open>func (c *rolloutContext) setFinalRSStatus(status string) error\<close>.
  A nil \<^verbatim>\<open>c.newRS\<close> panics inside \<^verbatim>\<open>generateBasePatch\<close>, before anything else
  happens, so the name \<^verbatim>\<open>c.newRS.Name\<close> of the error messages is read under \<open>Some\<close>.
\<close>

definition setFinalRSStatus ::
    "'w reconcilerBase \<Rightarrow> keys \<Rightarrow> string \<Rightarrow> rolloutContext \<times> 'w
       \<Rightarrow> (panic + error option) \<times> (rolloutContext \<times> 'w)" where
  "setFinalRSStatus B K status s =
     (case s of (c, w) \<Rightarrow>
       (case newRS c of
          None \<Rightarrow> (Inl NilPointerDereference, (c, w))
        | Some rs \<Rightarrow>
           (case generateRSFinalStatusPatch K c status of
              Inl p \<Rightarrow> (Inl p, (c, w))
            | Inr patchWithRSFinalStatus \<Rightarrow>
               (case CreateTwoWayMergePatch B emptyReplicaSet patchWithRSFinalStatus emptyReplicaSet of
                  Inl err \<Rightarrow>
                    (Inr (Some (Errorf ''error creating patch in setFinalRSStatus''
                                  (Name (rs_ObjectMeta rs)) err)), (c, w))
                | Inr patch \<Rightarrow>
                   (let c1 = c\<lparr> log := log c @ [''Patching replicaset with patch: '' @ patch] \<rparr>
                    in (case Patch B (Namespace (rs_ObjectMeta patchWithRSFinalStatus))
                                     (Name (rs_ObjectMeta patchWithRSFinalStatus)) patch w of
                          (Inl err, w1) \<Rightarrow>
                            (Inr (Some (Errorf ''error patching replicaset in setFinalRSStatus''
                                          (Name (rs_ObjectMeta rs)) err)), (c1, w1))
                        | (Inr updatedRS, w1) \<Rightarrow>
                            (case IndexerUpdate B updatedRS w1 of
                               (Some err, w2) \<Rightarrow>
                                 (Inr (Some (Errorf
                                    ''error updating replicaset informer in setFinalRSStatus''
                                    (Name (rs_ObjectMeta rs)) err)), (c1, w2))
                             | (None, w2) \<Rightarrow> (Inr None, (c1, w2)))))))))"

section \<open>The reconciliation dispatcher\<close>




section \<open>The rollback window\<close>

text \<open>
  Modelled from the spec: the rollback-window evaluator. Its code is in another file of
  the package; the spec (4.2) and \<^verbatim>\<open>docs/features/rollback.md\<close> describe it. The
  revision history lists, most recent first, the revisions whose replica set still
  exists, each with the marker of an abort while it served as canary or preview. The
  distance of a target is \<open>C - R\<close> with \<open>C\<close> the current stable revision; the window holds
  the revisions at distance \<open>1..N\<close> behind \<open>C\<close>; replica sets found invalid "are simply
  filtered from the already calculated window".
\<close>

record RevisionEntry =
  revision :: int
  replicaSet :: string
  aborted :: bool

definition rollbackWindow :: "int \<Rightarrow> int \<Rightarrow> RevisionEntry list \<Rightarrow> RevisionEntry list" where
  "rollbackWindow C N history =
     filter (\<lambda>e. 1 \<le> C - revision e \<and> C - revision e \<le> N) history"

definition fastTrackEligible :: "int \<Rightarrow> int \<Rightarrow> RevisionEntry list \<Rightarrow> int \<Rightarrow> bool" where
  "fastTrackEligible C N history R =
     (R \<in> set (map revision (filter (\<lambda>e. \<not> aborted e) (rollbackWindow C N history))))"

text \<open>An abort recorded on revision \<open>Q\<close> of a history.\<close>

definition markAborted :: "int \<Rightarrow> RevisionEntry list \<Rightarrow> RevisionEntry list" where
  "markAborted Q history = map (\<lambda>e. if revision e = Q then e\<lparr> aborted := True \<rparr> else e) history"

section \<open>Example inputs\<close>

text \<open>
  Concrete objects on which the theorems below are run: a canary rollout that is not
  paused, its context, and two pause conditions.
\<close>

definition exampleRollout :: Rollout where
  "exampleRollout =
     \<lparr> ro_ObjectMeta = emptyObjectMeta\<lparr> Name := ''guestbook'', Namespace := ''default'' \<rparr>,
       ro_Spec = \<lparr> Paused = False,
                   Strategy = \<lparr> BlueGreen = None, Canary = Some \<lparr> canary_Steps = [''setWeight''] \<rparr> \<rparr>,
                   RestartAt = None \<rparr>,
       ro_Status = \<lparr> PauseConditions = [], CurrentStepIndex = Some 1, RestartedAt = None,
                     status_Canary = \<lparr> CurrentStepAnalysisRunStatus = None,
                                       CurrentBackgroundAnalysisRunStatus = None,
                                       CurrentExperiment = '''' \<rparr>,
                     status_BlueGreen = \<lparr> PrePromotionAnalysisRunStatus = None,
                                          PostPromotionAnalysisRunStatus = None \<rparr> \<rparr> \<rparr>"

definition exampleContext :: rolloutContext where
  "exampleContext =
     \<lparr> log = [], rollout = exampleRollout, newRollout = None, newRS = None, stableRS = None,
       allRSs = [], olderRSs = [], otherRSs = [],
       currentArs = \<lparr> BlueGreenPrePromotion = None, BlueGreenPostPromotion = None,
                      CanaryStep = None, CanaryBackground = None \<rparr>,
       otherArs = [], currentEx = None, otherExs = [],
       newStatus = ro_Status exampleRollout,
       pauseContext = [], stepPluginContext = [], targetsVerified = None \<rparr>"

definition setPaused :: "bool \<Rightarrow> rolloutContext \<Rightarrow> rolloutContext" where
  "setPaused b c = c\<lparr> rollout := (rollout c)\<lparr> ro_Spec := (ro_Spec (rollout c))\<lparr> Paused := b \<rparr> \<rparr> \<rparr>"

definition setPauseConditions :: "PauseCondition list \<Rightarrow> rolloutContext \<Rightarrow> rolloutContext" where
  "setPauseConditions pcs c =
     c\<lparr> rollout := (rollout c)\<lparr> ro_Status := (ro_Status (rollout c))\<lparr> PauseConditions := pcs \<rparr> \<rparr> \<rparr>"

definition inconclusivePause :: PauseCondition where
  "inconclusivePause = \<lparr> Reason = PauseReasonInconclusiveAnalysis, StartTime = 100 \<rparr>"

definition stepPause :: PauseCondition where
  "stepPause = \<lparr> Reason = PauseReasonCanaryPauseStep, StartTime = 50 \<rparr>"

text \<open>An analysis run, and current-run sets that fill the canary step slot or no slot.\<close>

definition exampleRun :: AnalysisRun where
  "exampleRun = \<lparr> ar_Name = ''guestbook-6c54544bf9-4-2'',
                   ar_Status = \<lparr> Phase = ''Running'', Message = ''metric in progress'' \<rparr> \<rparr>"

definition stepRunOnly :: CurrentAnalysisRuns where
  "stepRunOnly = \<lparr> BlueGreenPrePromotion = None, BlueGreenPostPromotion = None,
                    CanaryStep = Some exampleRun, CanaryBackground = None \<rparr>"

definition noRuns :: CurrentAnalysisRuns where
  "noRuns = \<lparr> BlueGreenPrePromotion = None, BlueGreenPostPromotion = None,
               CanaryStep = None, CanaryBackground = None \<rparr>"

definition oldStatus :: "string \<Rightarrow> RolloutAnalysisRunStatus" where
  "oldStatus name = \<lparr> rars_Name = name, rars_Status = ''Successful'', rars_Message = '''' \<rparr>"

text \<open>A context whose working status already carries an entry in each analysis slot.\<close>

definition exampleBusyContext :: rolloutContext where
  "exampleBusyContext =
     exampleContext\<lparr> newStatus := (newStatus exampleContext)
       \<lparr> status_Canary :=
           \<lparr> CurrentStepAnalysisRunStatus = Some (oldStatus ''step-3''),
             CurrentBackgroundAnalysisRunStatus = Some (oldStatus ''background-3''),
             CurrentExperiment = '''' \<rparr>,
         status_BlueGreen :=
           \<lparr> PrePromotionAnalysisRunStatus = Some (oldStatus ''pre-3''),
             PostPromotionAnalysisRunStatus = Some (oldStatus ''post-3'') \<rparr> \<rparr> \<rparr>"

text \<open>The same context for a rollout that configures neither strategy.\<close>

definition exampleNoStrategyContext :: rolloutContext where
  "exampleNoStrategyContext =
     exampleBusyContext\<lparr> rollout := (rollout exampleBusyContext)
       \<lparr> ro_Spec := (ro_Spec (rollout exampleBusyContext))
           \<lparr> Strategy := \<lparr> BlueGreen = None, Canary = None \<rparr> \<rparr> \<rparr> \<rparr>"

definition exampleExperiment :: "string \<Rightarrow> Experiment" where
  "exampleExperiment name = \<lparr> ex_Name = name, ex_Phase = ''Running'' \<rparr>"



text \<open>
  A choice of the constants, a live replica set, the base patch and the final-status
  patch the generator makes of it, and the object the store answers a patch with.
\<close>

definition exampleKeys :: keys where
  "exampleKeys =
     \<lparr> RolloutLabel = ''rollout.argoproj.io'',
       DefaultRolloutUniqueLabelKey = ''rollouts-pod-template-hash'',
       DefaultReplicaSetScaleDownDeadlineAnnotationKey = ''scale-down-deadline'',
       ReplicaSetFinalStatusKey = ''argo-rollouts.argoproj.io/final-status'' \<rparr>"

definition exampleRS :: ReplicaSet where
  "exampleRS =
     \<lparr> rs_ObjectMeta =
         \<lparr> Name = ''guestbook-6c54544bf9'', Namespace = ''default'', ResourceVersion = ''4711'',
           Labels = [''app'' \<mapsto> ''guestbook'', ''rollouts-pod-template-hash'' \<mapsto> ''6c54544bf9''],
           Annotations = [''rollout.argoproj.io/revision'' \<mapsto> ''4'',
                          ''scale-down-deadline'' \<mapsto> ''2026-01-01T00:00:00Z'',
                          ''kubectl.kubernetes.io/last-applied'' \<mapsto> ''none''],
           OwnerReferences = [''guestbook''] \<rparr>,
       rs_Spec =
         \<lparr> Replicas = Some 3, MinReadySeconds = 10,
           Selector = Some \<lparr> MatchLabels =
             [''app'' \<mapsto> ''guestbook'', ''rollouts-pod-template-hash'' \<mapsto> ''6c54544bf9''] \<rparr>,
           Template =
             \<lparr> tmpl_ObjectMeta = emptyObjectMeta
                 \<lparr> Labels := [''app'' \<mapsto> ''guestbook''],
                   Annotations := [''sidecar.istio.io/inject'' \<mapsto> ''true''] \<rparr>,
               tmpl_Spec = ''containers'' \<rparr> \<rparr>,
       rs_Status = \<lparr> rss_Replicas = 3, rss_ReadyReplicas = 2 \<rparr> \<rparr>"

definition examplePatch :: ReplicaSet where
  "examplePatch =
     \<lparr> rs_ObjectMeta =
         \<lparr> Name = '''', Namespace = '''', ResourceVersion = '''',
           Labels = [''rollouts-pod-template-hash'' \<mapsto> ''6c54544bf9''],
           Annotations = [''rollout.argoproj.io/revision'' \<mapsto> ''4'',
                          ''scale-down-deadline'' \<mapsto> ''2026-01-01T00:00:00Z''],
           OwnerReferences = [] \<rparr>,
       rs_Spec =
         \<lparr> Replicas = Some 3, MinReadySeconds = 0,
           Selector = Some \<lparr> MatchLabels = [''rollouts-pod-template-hash'' \<mapsto> ''6c54544bf9''] \<rparr>,
           Template =
             \<lparr> tmpl_ObjectMeta = emptyObjectMeta
                 \<lparr> Labels := [''app'' \<mapsto> ''guestbook''],
                   Annotations := [''sidecar.istio.io/inject'' \<mapsto> ''true''] \<rparr>,
               tmpl_Spec = '''' \<rparr> \<rparr>,
       rs_Status = \<lparr> rss_Replicas = 0, rss_ReadyReplicas = 0 \<rparr> \<rparr>"

definition exampleNewRSContext :: rolloutContext where
  "exampleNewRSContext = exampleContext\<lparr> newRS := Some exampleRS \<rparr>"

definition exampleFinalPatch :: ReplicaSet where
  "exampleFinalPatch =
     examplePatch\<lparr> rs_ObjectMeta := (rs_ObjectMeta examplePatch)
       \<lparr> Annotations := (Annotations (rs_ObjectMeta examplePatch))
            (''argo-rollouts.argoproj.io/final-status'' \<mapsto> ''aborted'') \<rparr> \<rparr>"

definition exampleUpdatedRS :: ReplicaSet where
  "exampleUpdatedRS =
     exampleRS\<lparr> rs_ObjectMeta := (rs_ObjectMeta exampleRS)\<lparr> ResourceVersion := ''4712'' \<rparr> \<rparr>"

text \<open>
  An example world: the number of patch requests the store has served, and the objects
  written to the local cache, latest first.
\<close>

definition exampleBase :: "(nat \<times> ReplicaSet list) reconcilerBase" where
  "exampleBase =
     \<lparr> CreateTwoWayMergePatch = (\<lambda>orig new dataStruct. Inr ''patch-bytes''),
       Patch = (\<lambda>namespace name patch w. (Inr exampleUpdatedRS, (Suc (fst w), snd w))),
       IndexerUpdate = (\<lambda>obj w. (None, (fst w, obj # snd w))) \<rparr>"

definition exampleLogged :: rolloutContext where
  "exampleLogged =
     exampleNewRSContext\<lparr> log := log exampleNewRSContext @
       [''Patching replicaset with patch: '' @ ''patch-bytes''] \<rparr>"

text \<open>
  The history \<open>[2, 3, 4 (aborted), 5]\<close> of the spec's scenario B, most recent first.
\<close>

definition scenarioB :: "RevisionEntry list" where
  "scenarioB =
     [ \<lparr> revision = 5, replicaSet = ''guestbook-5'', aborted = False \<rparr>,
       \<lparr> revision = 4, replicaSet = ''guestbook-4'', aborted = True \<rparr>,
       \<lparr> revision = 3, replicaSet = ''guestbook-3'', aborted = False \<rparr>,
       \<lparr> revision = 2, replicaSet = ''guestbook-2'', aborted = False \<rparr> ]"

section \<open>Lemmas about the model\<close>

lemma getPauseCondition_active:
  "getPauseCondition ro reason \<noteq> None \<longleftrightarrow>
     (\<exists>cond \<in> set (PauseConditions (ro_Status ro)). Reason cond = reason)"
  by (auto simp: getPauseCondition_def find_None_iff)

lemma setCanaryRuns_nil:
  "CanaryBackground currARs = None \<Longrightarrow>
     CurrentBackgroundAnalysisRunStatus (setCanaryRuns currARs st) =
       CurrentBackgroundAnalysisRunStatus st"
  "CanaryStep currARs = None \<Longrightarrow>
     CurrentStepAnalysisRunStatus (setCanaryRuns currARs st) = CurrentStepAnalysisRunStatus st"
  "CurrentExperiment (setCanaryRuns currARs st) = CurrentExperiment st"
  by (simp_all add: setCanaryRuns_def Let_def split: option.splits)

lemma setBlueGreenRuns_nil:
  "BlueGreenPrePromotion currARs = None \<Longrightarrow>
     PrePromotionAnalysisRunStatus (setBlueGreenRuns currARs st) =
       PrePromotionAnalysisRunStatus st"
  "BlueGreenPostPromotion currARs = None \<Longrightarrow>
     PostPromotionAnalysisRunStatus (setBlueGreenRuns currARs st) =
       PostPromotionAnalysisRunStatus st"
  by (simp_all add: setBlueGreenRuns_def Let_def split: option.splits)

text \<open>
  The recursion of \<open>rescueLoop\<close> is the slice expression of the source: with \<open>i\<close> the
  first index whose entry has the name, the result is \<^verbatim>\<open>otherExs[:i]\<close> followed by
  \<^verbatim>\<open>otherExs[i+1:]\<close>; without such an index the slice is left alone and nothing is logged.
\<close>

lemma rescueLoop_cut:
  "i < length exs \<Longrightarrow> ex_Name (exs ! i) = name \<Longrightarrow> \<forall>j < i. ex_Name (exs ! j) \<noteq> name \<Longrightarrow>
     fst (rescueLoop name exs) = take i exs @ drop (Suc i) exs"
proof (induction exs arbitrary: i)
  case Nil
  then show ?case by simp
next
  case (Cons otherEx rest)
  show ?case
  proof (cases i)
    case 0
    with Cons.prems show ?thesis by simp
  next
    case (Suc k)
    with Cons.prems have h: "ex_Name otherEx \<noteq> name" by auto
    from Suc Cons.prems have "k < length rest" "ex_Name (rest ! k) = name"
      "\<forall>j < k. ex_Name (rest ! j) \<noteq> name" by auto
    from Cons.IH [OF this] h Suc show ?thesis by (auto split: prod.splits)
  qed
qed

lemma rescueLoop_absent:
  "name \<notin> ex_Name ` set exs \<Longrightarrow> rescueLoop name exs = (exs, [])"
  by (induction exs) auto

lemma rescueLoop_distinct:
  "distinct (map ex_Name exs) \<Longrightarrow>
     fst (rescueLoop name exs) = filter (\<lambda>e. ex_Name e \<noteq> name) exs"
proof (induction exs)
  case Nil
  then show ?case by simp
next
  case (Cons otherEx rest)
  show ?case
  proof (cases "ex_Name otherEx = name")
    case True
    with Cons.prems have "name \<notin> ex_Name ` set rest" by simp
    then have "\<forall>e \<in> set rest. ex_Name e \<noteq> name" by blast
    then have "filter (\<lambda>e. ex_Name e \<noteq> name) rest = rest" by (simp add: filter_id_conv)
    with True show ?thesis by simp
  next
    case False
    with Cons show ?thesis by (auto split: prod.splits)
  qed
qed

lemma rescueLoop_others:
  "filter (\<lambda>e. ex_Name e \<noteq> name) (fst (rescueLoop name exs)) =
     filter (\<lambda>e. ex_Name e \<noteq> name) exs"
  by (induction exs) (auto split: prod.splits)

lemma patch_entry:
  "key \<in> dom (rangeCopy keep src (copyIfFound k src Map.empty)) \<Longrightarrow>
     (keep key \<or> key = k) \<and> rangeCopy keep src (copyIfFound k src Map.empty) key = src key"
  by (auto simp: rangeCopy_def copyIfFound_def split: option.splits if_splits)

lemma matchLabels_entry:
  "key \<in> dom (copyIfFound k src Map.empty) \<Longrightarrow>
     key = k \<and> copyIfFound k src Map.empty key = src key"
  by (auto simp: copyIfFound_def split: option.splits if_splits)

lemma generateBasePatch_Inr:
  "generateBasePatch K (Some rs) = Inr p \<Longrightarrow>
     \<exists>sel. Selector (rs_Spec rs) = Some sel \<and>
       Labels (rs_ObjectMeta p) =
         rangeCopy (hasOwnedPrefix K) (Labels (rs_ObjectMeta rs))
           (copyIfFound (DefaultRolloutUniqueLabelKey K) (Labels (rs_ObjectMeta rs)) Map.empty) \<and>
       Annotations (rs_ObjectMeta p) =
         rangeCopy (hasOwnedPrefix K) (Annotations (rs_ObjectMeta rs))
           (copyIfFound (DefaultReplicaSetScaleDownDeadlineAnnotationKey K)
              (Annotations (rs_ObjectMeta rs)) Map.empty) \<and>
       Selector (rs_Spec p) =
         Some \<lparr> MatchLabels =
           copyIfFound (DefaultRolloutUniqueLabelKey K) (MatchLabels sel) Map.empty \<rparr>"
  by (auto simp: generateBasePatch_def Let_def split: option.splits)

lemma generateBasePatch_rest:
  "generateBasePatch K (Some rs) = Inr p \<Longrightarrow>
     Replicas (rs_Spec p) = Replicas (rs_Spec rs) \<and>
     Labels (tmpl_ObjectMeta (Template (rs_Spec p))) =
       Labels (tmpl_ObjectMeta (Template (rs_Spec rs))) \<and>
     Annotations (tmpl_ObjectMeta (Template (rs_Spec p))) =
       Annotations (tmpl_ObjectMeta (Template (rs_Spec rs))) \<and>
     Name (rs_ObjectMeta p) = '''' \<and> Namespace (rs_ObjectMeta p) = '''' \<and>
     ResourceVersion (rs_ObjectMeta p) = '''' \<and> OwnerReferences (rs_ObjectMeta p) = [] \<and>
     MinReadySeconds (rs_Spec p) = 0 \<and>
     tmpl_Spec (Template (rs_Spec p)) = '''' \<and>
     (tmpl_ObjectMeta (Template (rs_Spec p)))\<lparr> Labels := Map.empty, Annotations := Map.empty \<rparr>
       = emptyObjectMeta \<and>
     rs_Status p = rs_Status emptyReplicaSet"
  by (auto simp: generateBasePatch_def Let_def emptyReplicaSet_def emptyObjectMeta_def
           split: option.splits)

lemma examplePatch_generated:
  "generateBasePatch exampleKeys (Some exampleRS) = Inr examplePatch"
  by (auto simp: generateBasePatch_def exampleKeys_def exampleRS_def examplePatch_def
        emptyReplicaSet_def emptyObjectMeta_def Let_def fun_eq_iff
        rangeCopy_def copyIfFound_def hasOwnedPrefix_def)

lemma exampleFinalPatch_generated:
  "generateRSFinalStatusPatch exampleKeys exampleNewRSContext ''aborted'' = Inr exampleFinalPatch"
  by (simp add: generateRSFinalStatusPatch_def exampleNewRSContext_def examplePatch_generated
        exampleFinalPatch_def)
     (simp add: exampleKeys_def)

lemma Errorf_carries_name:
  "sublist name (Error (Errorf pre name err)) \<and> Unwrap (Errorf pre name err) = Some err"
proof -
  have "pre @ '' '' @ name @ '': '' @ Error err = (pre @ '' '') @ name @ ('': '' @ Error err)"
    by simp
  then have "sublist name (pre @ '' '' @ name @ '': '' @ Error err)"
    unfolding sublist_def by blast
  then show ?thesis by (simp add: Errorf_def)
qed

lemma fastTrackEligible_iff:
  "fastTrackEligible C N history R \<longleftrightarrow>
     1 \<le> C - R \<and> C - R \<le> N \<and> (\<exists>e \<in> set history. revision e = R \<and> \<not> aborted e)"
  by (auto simp: fastTrackEligible_def rollbackWindow_def)

lemma find_revision_distinct:
  "distinct (map revision history) \<Longrightarrow>
     (\<exists>e \<in> set history. revision e = R \<and> \<not> aborted e) \<longleftrightarrow>
     (\<exists>e. find (\<lambda>e. revision e = R) history = Some e \<and> \<not> aborted e)"
proof (induction history)
  case Nil
  then show ?case by simp
next
  case (Cons a history)
  show ?case
  proof (cases "revision a = R")
    case True
    with Cons.prems have "R \<notin> revision ` set history" by simp
    then have "\<forall>e \<in> set history. revision e \<noteq> R" by blast
    with True show ?thesis by auto
  next
    case False
    with Cons show ?thesis by simp
  qed
qed

lemma markAborted_valid:
  "(\<exists>e \<in> set (markAborted Q history). revision e = R \<and> \<not> aborted e) \<longleftrightarrow>
     R \<noteq> Q \<and> (\<exists>e \<in> set history. revision e = R \<and> \<not> aborted e)"
  by (induction history) (auto simp: markAborted_def)

section \<open>The claims\<close>




text \<open>
  Claim C2. \<^verbatim>\<open>haltProgress\<close> returns the first active reason in the order user pause,
  inconclusive analysis: "user paused" whenever \<^verbatim>\<open>spec.paused\<close> is set, also when an
  inconclusive-analysis pause condition is recorded at the same time; "inconclusive
  analysis" when the flag is clear and such a condition is recorded; the empty string
  when neither holds.
\<close>

theorem haltProgress_precedence:
  "(Paused (ro_Spec (rollout c)) \<longrightarrow> fst (haltProgress c) = ''user paused'') \<and>
   (\<not> Paused (ro_Spec (rollout c)) \<longrightarrow>
      (\<exists>cond \<in> set (PauseConditions (ro_Status (rollout c))).
          Reason cond = PauseReasonInconclusiveAnalysis) \<longrightarrow>
      fst (haltProgress c) = ''inconclusive analysis'') \<and>
   (\<not> Paused (ro_Spec (rollout c)) \<longrightarrow>
      \<not> (\<exists>cond \<in> set (PauseConditions (ro_Status (rollout c))).
          Reason cond = PauseReasonInconclusiveAnalysis) \<longrightarrow>
      fst (haltProgress c) = '''')"
  using getPauseCondition_active [of "rollout c" PauseReasonInconclusiveAnalysis]
  by (simp add: haltProgress_def)

theorem haltProgress_precedence_witness:
  "fst (haltProgress (setPaused True (setPauseConditions [stepPause, inconclusivePause] exampleContext)))
     = ''user paused'' \<and>
   fst (haltProgress (setPauseConditions [stepPause, inconclusivePause] exampleContext))
     = ''inconclusive analysis'' \<and>
   fst (haltProgress (setPauseConditions [stepPause] exampleContext)) = ''''"
  using haltProgress_precedence
          [of "setPaused True (setPauseConditions [stepPause, inconclusivePause] exampleContext)"]
        haltProgress_precedence
          [of "setPauseConditions [stepPause, inconclusivePause] exampleContext"]
        haltProgress_precedence [of "setPauseConditions [stepPause] exampleContext"]
  by (simp add: setPaused_def setPauseConditions_def exampleContext_def exampleRollout_def
        inconclusivePause_def stepPause_def)

text \<open>
  Claim C3, as amended. \<^verbatim>\<open>SetCurrentAnalysisRuns\<close> records the supplied runs as the
  current ones and leaves the "other" analysis-run list as it was: it removes nothing by
  identity match, so a run is in that list after the call exactly when it was before.
\<close>

theorem SetCurrentAnalysisRuns_keeps_otherArs:
  "otherArs (SetCurrentAnalysisRuns currARs c) = otherArs c \<and>
   currentArs (SetCurrentAnalysisRuns currARs c) = currARs \<and>
   (\<forall>ar. ar \<in> set (otherArs (SetCurrentAnalysisRuns currARs c)) \<longleftrightarrow> ar \<in> set (otherArs c))"
  by (simp add: SetCurrentAnalysisRuns_def Let_def)

text \<open>
  Claim C3 as stated fails: a run that is in the "other" list and is selected as the
  current canary step run is still in the list after the call.
\<close>

theorem SetCurrentAnalysisRuns_no_rescue_counterexample:
  "CanaryStep (currentArs (SetCurrentAnalysisRuns stepRunOnly
      (exampleContext\<lparr> otherArs := [exampleRun] \<rparr>))) = Some exampleRun \<and>
   exampleRun \<in> set (otherArs (SetCurrentAnalysisRuns stepRunOnly
      (exampleContext\<lparr> otherArs := [exampleRun] \<rparr>)))"
  by (simp add: SetCurrentAnalysisRuns_def Let_def stepRunOnly_def)

text \<open>
  Claim C4, as amended. In the patch \<^verbatim>\<open>generateBasePatch\<close> makes of a replica set,
  every annotation key has one of the controller-owned prefixes or is the
  scale-down-deadline annotation key, every label key has one of the prefixes or is the
  unique-template-hash key, the only selector match-label key is the unique-template-hash
  key, and each entry has the value of the live object. Besides those entries the patch
  carries the replica count and the template's labels and annotations; every other field
  has its zero value. The patch of \<^verbatim>\<open>generateRSFinalStatusPatch\<close> differs from it in
  the annotations only, whose keys may also be the final-status key.
\<close>

theorem generateBasePatch_whitelist:
  assumes "generateBasePatch K (Some rs) = Inr p"
  shows "(\<forall>key \<in> dom (Annotations (rs_ObjectMeta p)).
            (hasOwnedPrefix K key \<or> key = DefaultReplicaSetScaleDownDeadlineAnnotationKey K) \<and>
            Annotations (rs_ObjectMeta p) key = Annotations (rs_ObjectMeta rs) key) \<and>
         (\<forall>key \<in> dom (Labels (rs_ObjectMeta p)).
            (hasOwnedPrefix K key \<or> key = DefaultRolloutUniqueLabelKey K) \<and>
            Labels (rs_ObjectMeta p) key = Labels (rs_ObjectMeta rs) key) \<and>
         (\<exists>sel psel. Selector (rs_Spec rs) = Some sel \<and> Selector (rs_Spec p) = Some psel \<and>
            (\<forall>key \<in> dom (MatchLabels psel).
               key = DefaultRolloutUniqueLabelKey K \<and> MatchLabels psel key = MatchLabels sel key)) \<and>
         Replicas (rs_Spec p) = Replicas (rs_Spec rs) \<and>
         Labels (tmpl_ObjectMeta (Template (rs_Spec p))) =
           Labels (tmpl_ObjectMeta (Template (rs_Spec rs))) \<and>
         Annotations (tmpl_ObjectMeta (Template (rs_Spec p))) =
           Annotations (tmpl_ObjectMeta (Template (rs_Spec rs))) \<and>
         Name (rs_ObjectMeta p) = '''' \<and> Namespace (rs_ObjectMeta p) = '''' \<and>
         ResourceVersion (rs_ObjectMeta p) = '''' \<and> OwnerReferences (rs_ObjectMeta p) = [] \<and>
         MinReadySeconds (rs_Spec p) = 0 \<and>
         tmpl_Spec (Template (rs_Spec p)) = '''' \<and>
         (tmpl_ObjectMeta (Template (rs_Spec p)))\<lparr> Labels := Map.empty, Annotations := Map.empty \<rparr>
           = emptyObjectMeta \<and>
         rs_Status p = rs_Status emptyReplicaSet \<and>
         (\<forall>c status q. newRS c = Some rs \<and> generateRSFinalStatusPatch K c status = Inr q \<longrightarrow>
            (\<forall>key \<in> dom (Annotations (rs_ObjectMeta q)).
               hasOwnedPrefix K key \<or> key = DefaultReplicaSetScaleDownDeadlineAnnotationKey K \<or>
               key = ReplicaSetFinalStatusKey K) \<and>
            Labels (rs_ObjectMeta q) = Labels (rs_ObjectMeta p) \<and>
            rs_Spec q = rs_Spec p \<and> rs_Status q = rs_Status p)"
proof -
  from generateBasePatch_Inr [OF assms] obtain sel where
    sel: "Selector (rs_Spec rs) = Some sel" and
    lab: "Labels (rs_ObjectMeta p) =
         rangeCopy (hasOwnedPrefix K) (Labels (rs_ObjectMeta rs))
           (copyIfFound (DefaultRolloutUniqueLabelKey K) (Labels (rs_ObjectMeta rs)) Map.empty)" and
    ann: "Annotations (rs_ObjectMeta p) =
         rangeCopy (hasOwnedPrefix K) (Annotations (rs_ObjectMeta rs))
           (copyIfFound (DefaultReplicaSetScaleDownDeadlineAnnotationKey K)
              (Annotations (rs_ObjectMeta rs)) Map.empty)" and
    psel: "Selector (rs_Spec p) =
         Some \<lparr> MatchLabels =
           copyIfFound (DefaultRolloutUniqueLabelKey K) (MatchLabels sel) Map.empty \<rparr>"
    by blast
  have A: "\<forall>key \<in> dom (Annotations (rs_ObjectMeta p)).
            (hasOwnedPrefix K key \<or> key = DefaultReplicaSetScaleDownDeadlineAnnotationKey K) \<and>
            Annotations (rs_ObjectMeta p) key = Annotations (rs_ObjectMeta rs) key"
    unfolding ann using patch_entry by blast
  have L: "\<forall>key \<in> dom (Labels (rs_ObjectMeta p)).
            (hasOwnedPrefix K key \<or> key = DefaultRolloutUniqueLabelKey K) \<and>
            Labels (rs_ObjectMeta p) key = Labels (rs_ObjectMeta rs) key"
    unfolding lab using patch_entry by blast
  have S: "\<exists>sel psel. Selector (rs_Spec rs) = Some sel \<and> Selector (rs_Spec p) = Some psel \<and>
            (\<forall>key \<in> dom (MatchLabels psel).
               key = DefaultRolloutUniqueLabelKey K \<and> MatchLabels psel key = MatchLabels sel key)"
    using sel psel matchLabels_entry [of _ "DefaultRolloutUniqueLabelKey K" "MatchLabels sel"]
    by auto
  have F: "\<forall>c status q. newRS c = Some rs \<and> generateRSFinalStatusPatch K c status = Inr q \<longrightarrow>
            (\<forall>key \<in> dom (Annotations (rs_ObjectMeta q)).
               hasOwnedPrefix K key \<or> key = DefaultReplicaSetScaleDownDeadlineAnnotationKey K \<or>
               key = ReplicaSetFinalStatusKey K) \<and>
            Labels (rs_ObjectMeta q) = Labels (rs_ObjectMeta p) \<and>
            rs_Spec q = rs_Spec p \<and> rs_Status q = rs_Status p"
    using A assms by (auto simp: generateRSFinalStatusPatch_def split: if_splits) blast
  show ?thesis
    using A L S F generateBasePatch_rest [OF assms] by blast
qed

theorem generateBasePatch_whitelist_witness:
  "generateBasePatch exampleKeys (Some exampleRS) = Inr examplePatch \<and>
   dom (Annotations (rs_ObjectMeta examplePatch)) =
     {''rollout.argoproj.io/revision'', ''scale-down-deadline''} \<and>
   hasOwnedPrefix exampleKeys ''rollout.argoproj.io/revision'' \<and>
   Annotations (rs_ObjectMeta examplePatch) ''rollout.argoproj.io/revision''
     = Annotations (rs_ObjectMeta exampleRS) ''rollout.argoproj.io/revision'' \<and>
   Annotations (rs_ObjectMeta examplePatch) ''scale-down-deadline''
     = Annotations (rs_ObjectMeta exampleRS) ''scale-down-deadline'' \<and>
   Annotations (rs_ObjectMeta exampleRS) ''kubectl.kubernetes.io/last-applied'' = Some ''none'' \<and>
   ''kubectl.kubernetes.io/last-applied'' \<notin> dom (Annotations (rs_ObjectMeta examplePatch)) \<and>
   dom (Labels (rs_ObjectMeta examplePatch)) = {''rollouts-pod-template-hash''} \<and>
   Replicas (rs_Spec examplePatch) = Some 3 \<and>
   Name (rs_ObjectMeta examplePatch) = '''' \<and>
   newRS exampleNewRSContext = Some exampleRS \<and>
   generateRSFinalStatusPatch exampleKeys exampleNewRSContext ''aborted'' = Inr exampleFinalPatch \<and>
   dom (Annotations (rs_ObjectMeta exampleFinalPatch)) =
     {''rollout.argoproj.io/revision'', ''scale-down-deadline'',
      ''argo-rollouts.argoproj.io/final-status''} \<and>
   rs_Spec exampleFinalPatch = rs_Spec examplePatch"
proof -
  note t = generateBasePatch_whitelist [OF examplePatch_generated]
  have doms:
    "dom (Annotations (rs_ObjectMeta examplePatch)) =
       {''rollout.argoproj.io/revision'', ''scale-down-deadline''}"
    "dom (Labels (rs_ObjectMeta examplePatch)) = {''rollouts-pod-template-hash''}"
    "dom (Annotations (rs_ObjectMeta exampleFinalPatch)) =
       {''rollout.argoproj.io/revision'', ''scale-down-deadline'',
        ''argo-rollouts.argoproj.io/final-status''}"
    by (auto simp: examplePatch_def exampleFinalPatch_def split: if_splits)
  have owned: "hasOwnedPrefix exampleKeys ''rollout.argoproj.io/revision''"
    by (simp add: exampleKeys_def hasOwnedPrefix_def)
  have live: "Annotations (rs_ObjectMeta exampleRS) ''kubectl.kubernetes.io/last-applied''
      = Some ''none''"
    by (simp add: exampleRS_def)
  have n: "newRS exampleNewRSContext = Some exampleRS"
    by (simp add: exampleNewRSContext_def)
  from t have base:
       "Annotations (rs_ObjectMeta examplePatch) ''rollout.argoproj.io/revision''
          = Annotations (rs_ObjectMeta exampleRS) ''rollout.argoproj.io/revision'' \<and>
        Annotations (rs_ObjectMeta examplePatch) ''scale-down-deadline''
          = Annotations (rs_ObjectMeta exampleRS) ''scale-down-deadline'' \<and>
        Replicas (rs_Spec examplePatch) = Replicas (rs_Spec exampleRS) \<and>
        Name (rs_ObjectMeta examplePatch) = ''''"
    unfolding doms by simp
  from t n exampleFinalPatch_generated
  have final: "rs_Spec exampleFinalPatch = rs_Spec examplePatch"
    by blast
  show ?thesis
    using base final examplePatch_generated exampleFinalPatch_generated doms owned live n
    by (simp add: exampleRS_def)
qed

text \<open>
  Claim C4 as stated fails: the scale-down-deadline annotation of the live object is
  copied into the patch by key, and that key need not have a controller-owned prefix nor
  be the unique-template-hash key or the final-status key.
\<close>

theorem generateBasePatch_claimed_whitelist_counterexample:
  "generateBasePatch exampleKeys (Some exampleRS) = Inr examplePatch \<and>
   Annotations (rs_ObjectMeta examplePatch) ''scale-down-deadline'' = Some ''2026-01-01T00:00:00Z'' \<and>
   \<not> hasOwnedPrefix exampleKeys ''scale-down-deadline'' \<and>
   ''scale-down-deadline'' \<noteq> DefaultRolloutUniqueLabelKey exampleKeys \<and>
   ''scale-down-deadline'' \<noteq> ReplicaSetFinalStatusKey exampleKeys"
  by (simp add: examplePatch_generated)
     (simp add: examplePatch_def exampleKeys_def hasOwnedPrefix_def)

text \<open>
  Claim C5. For a new replica set (with a selector) and any status string,
  \<^verbatim>\<open>generateRSFinalStatusPatch\<close> returns the base patch of the new replica set with the
  final-status annotation key mapped to the string as given: every other annotation and
  every other field of the returned patch is the base patch's.
\<close>

theorem generateRSFinalStatusPatch_adds_final_status:
  assumes "newRS c = Some rs" and "Selector (rs_Spec rs) = Some sel"
  shows "\<exists>base patch.
           generateBasePatch K (newRS c) = Inr base \<and>
           generateRSFinalStatusPatch K c status = Inr patch \<and>
           Annotations (rs_ObjectMeta patch) (ReplicaSetFinalStatusKey K) = Some status \<and>
           (\<forall>key. key \<noteq> ReplicaSetFinalStatusKey K \<longrightarrow>
              Annotations (rs_ObjectMeta patch) key = Annotations (rs_ObjectMeta base) key) \<and>
           dom (Annotations (rs_ObjectMeta patch)) =
             insert (ReplicaSetFinalStatusKey K) (dom (Annotations (rs_ObjectMeta base))) \<and>
           patch\<lparr> rs_ObjectMeta := (rs_ObjectMeta patch)
                   \<lparr> Annotations := Annotations (rs_ObjectMeta base) \<rparr> \<rparr> = base"
proof -
  obtain base where base: "generateBasePatch K (newRS c) = Inr base"
    using assms by (simp add: generateBasePatch_def Let_def)
  then show ?thesis
    by (simp add: generateRSFinalStatusPatch_def)
qed

theorem generateRSFinalStatusPatch_adds_final_status_witness:
  "newRS exampleNewRSContext = Some exampleRS \<and>
   Selector (rs_Spec exampleRS) =
     Some \<lparr> MatchLabels =
       [''app'' \<mapsto> ''guestbook'', ''rollouts-pod-template-hash'' \<mapsto> ''6c54544bf9''] \<rparr> \<and>
   generateBasePatch exampleKeys (newRS exampleNewRSContext) = Inr examplePatch \<and>
   generateRSFinalStatusPatch exampleKeys exampleNewRSContext ''aborted'' = Inr exampleFinalPatch \<and>
   Annotations (rs_ObjectMeta exampleFinalPatch) (ReplicaSetFinalStatusKey exampleKeys)
     = Some ''aborted'' \<and>
   Annotations (rs_ObjectMeta exampleFinalPatch) ''scale-down-deadline''
     = Annotations (rs_ObjectMeta examplePatch) ''scale-down-deadline'' \<and>
   exampleFinalPatch\<lparr> rs_ObjectMeta := (rs_ObjectMeta exampleFinalPatch)
       \<lparr> Annotations := Annotations (rs_ObjectMeta examplePatch) \<rparr> \<rparr> = examplePatch"
proof -
  have n: "newRS exampleNewRSContext = Some exampleRS"
    by (simp add: exampleNewRSContext_def)
  have s: "Selector (rs_Spec exampleRS) =
     Some \<lparr> MatchLabels =
       [''app'' \<mapsto> ''guestbook'', ''rollouts-pod-template-hash'' \<mapsto> ''6c54544bf9''] \<rparr>"
    by (simp add: exampleRS_def)
  from generateRSFinalStatusPatch_adds_final_status [OF n s, of exampleKeys "''aborted''"]
  obtain base patch where
    b: "generateBasePatch exampleKeys (newRS exampleNewRSContext) = Inr base" and
    p: "generateRSFinalStatusPatch exampleKeys exampleNewRSContext ''aborted'' = Inr patch" and
    f: "Annotations (rs_ObjectMeta patch) (ReplicaSetFinalStatusKey exampleKeys) = Some ''aborted''" and
    k: "\<forall>key. key \<noteq> ReplicaSetFinalStatusKey exampleKeys \<longrightarrow>
          Annotations (rs_ObjectMeta patch) key = Annotations (rs_ObjectMeta base) key" and
    r: "patch\<lparr> rs_ObjectMeta := (rs_ObjectMeta patch)
          \<lparr> Annotations := Annotations (rs_ObjectMeta base) \<rparr> \<rparr> = base"
    by blast
  have base: "base = examplePatch"
    using b n examplePatch_generated by simp
  have patch: "patch = exampleFinalPatch"
    using p exampleFinalPatch_generated by simp
  have d: "''scale-down-deadline'' \<noteq> ReplicaSetFinalStatusKey exampleKeys"
    by (simp add: exampleKeys_def)
  show ?thesis
    using n s b p f k r d unfolding base patch by simp
qed

text \<open>
  Claim C6. After \<^verbatim>\<open>SetCurrentExperiment(ex)\<close> the current experiment is \<open>ex\<close>, the
  status names it, and the "other" experiments keep every entry with a different name in
  order. Where "other" is a set, that is, no two of its entries share a name, the entry
  with the name of \<open>ex\<close> is gone from it, so \<open>ex\<close> is no delete candidate any more.
\<close>

theorem SetCurrentExperiment_rescues:
  "\<exists>c'. SetCurrentExperiment (Some ex) c = Inr c' \<and>
      currentEx c' = Some ex \<and>
      CurrentExperiment (status_Canary (newStatus c')) = ex_Name ex \<and>
      filter (\<lambda>e. ex_Name e \<noteq> ex_Name ex) (otherExs c') =
        filter (\<lambda>e. ex_Name e \<noteq> ex_Name ex) (otherExs c) \<and>
      (distinct (map ex_Name (otherExs c)) \<longrightarrow>
         otherExs c' = filter (\<lambda>e. ex_Name e \<noteq> ex_Name ex) (otherExs c) \<and>
         ex_Name ex \<notin> ex_Name ` set (otherExs c'))"
proof -
  obtain others logged where r: "rescueLoop (ex_Name ex) (otherExs c) = (others, logged)"
    by (cases "rescueLoop (ex_Name ex) (otherExs c)")
  have o: "others = fst (rescueLoop (ex_Name ex) (otherExs c))" using r by simp
  have keep: "filter (\<lambda>e. ex_Name e \<noteq> ex_Name ex) others =
      filter (\<lambda>e. ex_Name e \<noteq> ex_Name ex) (otherExs c)"
    unfolding o by (rule rescueLoop_others)
  have gone: "others = filter (\<lambda>e. ex_Name e \<noteq> ex_Name ex) (otherExs c) \<and>
      ex_Name ex \<notin> ex_Name ` set others" if "distinct (map ex_Name (otherExs c))"
    unfolding o using rescueLoop_distinct [OF that, of "ex_Name ex"] by auto
  show ?thesis
    using keep gone by (auto simp add: SetCurrentExperiment_def r)
qed

theorem SetCurrentExperiment_rescues_witness:
  "distinct (map ex_Name [exampleExperiment ''ex-1'', exampleExperiment ''ex-2'',
                          exampleExperiment ''ex-3'']) \<and>
   (\<exists>c'. SetCurrentExperiment (Some (exampleExperiment ''ex-2''))
            (exampleContext\<lparr> otherExs := [exampleExperiment ''ex-1'', exampleExperiment ''ex-2'',
                                           exampleExperiment ''ex-3''] \<rparr>) = Inr c' \<and>
      currentEx c' = Some (exampleExperiment ''ex-2'') \<and>
      CurrentExperiment (status_Canary (newStatus c')) = ''ex-2'' \<and>
      otherExs c' = [exampleExperiment ''ex-1'', exampleExperiment ''ex-3''])"
  using SetCurrentExperiment_rescues [of "exampleExperiment ''ex-2''"
          "exampleContext\<lparr> otherExs := [exampleExperiment ''ex-1'', exampleExperiment ''ex-2'',
                                         exampleExperiment ''ex-3''] \<rparr>"]
  by (auto simp add: exampleExperiment_def)

text \<open>
  Claim C7. \<^verbatim>\<open>haltProgress\<close> is a pure query: it leaves the whole context (the
  rollout, the working status, the pause conditions, every replica-set, analysis-run and
  experiment list) as it was, and asking again gives the same answer.
\<close>

theorem haltProgress_pure:
  "snd (haltProgress c) = c \<and>
   haltProgress (snd (haltProgress c)) = haltProgress c"
  by (simp add: haltProgress_def)

text \<open>
  Claim C8, as amended. With distance \<open>C - R\<close> between the current stable revision \<open>C\<close>
  and the target \<open>R\<close>, in a linear history (each revision once): the request is
  fast-track eligible iff \<open>1 \<le> C - R \<le> N\<close>, the target replica set is in the history,
  and it carries no abort marker. An aborted revision is ineligible itself; an abort of
  another revision \<open>Q\<close> changes the eligibility of no revision but \<open>Q\<close>, and the window
  is not widened by it: a target further than \<open>N\<close> behind stays ineligible. In the
  history \<open>[2, 3, 4 (aborted), 5]\<close> with window 3 and revision 5 the current stable
  one, revision 4 is ineligible and revision 3 is eligible.
\<close>

theorem fastTrackEligible_window:
  "(distinct (map revision history) \<longrightarrow>
      (fastTrackEligible C N history R \<longleftrightarrow>
         1 \<le> C - R \<and> C - R \<le> N \<and>
         (\<exists>e. find (\<lambda>e. revision e = R) history = Some e \<and> \<not> aborted e))) \<and>
   \<not> fastTrackEligible C N (markAborted R history) R \<and>
   (Q \<noteq> R \<longrightarrow>
      fastTrackEligible C N (markAborted Q history) R = fastTrackEligible C N history R) \<and>
   (N < C - R \<longrightarrow> \<not> fastTrackEligible C N (markAborted Q history) R) \<and>
   \<not> fastTrackEligible 5 3 scenarioB 4 \<and>
   fastTrackEligible 5 3 scenarioB 3"
proof -
  have 1: "distinct (map revision history) \<longrightarrow>
      (fastTrackEligible C N history R \<longleftrightarrow>
         1 \<le> C - R \<and> C - R \<le> N \<and>
         (\<exists>e. find (\<lambda>e. revision e = R) history = Some e \<and> \<not> aborted e))"
    using find_revision_distinct [of history R] by (simp add: fastTrackEligible_iff)
  have 2: "\<not> fastTrackEligible C N (markAborted R history) R"
    by (simp add: fastTrackEligible_iff markAborted_valid)
  have 3: "Q \<noteq> R \<longrightarrow>
      fastTrackEligible C N (markAborted Q history) R = fastTrackEligible C N history R"
    by (simp add: fastTrackEligible_iff markAborted_valid)
  have 4: "N < C - R \<longrightarrow> \<not> fastTrackEligible C N (markAborted Q history) R"
    by (simp add: fastTrackEligible_iff)
  have 5: "\<not> fastTrackEligible 5 3 scenarioB 4" "fastTrackEligible 5 3 scenarioB 3"
    by (simp_all add: fastTrackEligible_iff scenarioB_def)
  from 1 2 3 4 5 show ?thesis by (intro conjI)
qed

theorem fastTrackEligible_window_witness:
  "distinct (map revision scenarioB) \<and>
   fastTrackEligible 5 3 scenarioB 2 \<and>
   \<not> fastTrackEligible 5 3 scenarioB 1 \<and>
   \<not> fastTrackEligible 5 3 scenarioB 5 \<and>
   fastTrackEligible 5 3 (markAborted 4 scenarioB) 3 \<and>
   \<not> fastTrackEligible 5 1 (markAborted 4 scenarioB) 3"
  using fastTrackEligible_window [of scenarioB 5 3 2 4]
        fastTrackEligible_window [of scenarioB 5 3 1 4]
        fastTrackEligible_window [of scenarioB 5 3 5 4]
        fastTrackEligible_window [of scenarioB 5 3 3 4]
        fastTrackEligible_window [of scenarioB 5 1 3 4]
  by (simp add: scenarioB_def)

text \<open>
  Claim C8 as stated fails in its example, which marks revision 3 of the history
  \<open>[2, 3, 4 (aborted), 5]\<close> as the stable one: with \<open>C = 3\<close> the target 3 is in the
  history and carries no abort marker, but its distance is 0, outside \<open>1..N\<close>, so the
  request to revision 3 is not eligible (and the request to revision 4, at distance -1,
  is refused as a move forward, not for its abort marker).
\<close>

theorem fastTrackEligible_stable_example_counterexample:
  "\<not> fastTrackEligible 3 3 scenarioB 3 \<and>
   \<lparr> revision = 3, replicaSet = ''guestbook-3'', aborted = False \<rparr> \<in> set scenarioB \<and>
   \<not> (1 \<le> (3::int) - 3) \<and>
   \<not> fastTrackEligible 3 3 scenarioB 4 \<and>
   \<not> (1 \<le> (3::int) - 4)"
  by (simp add: fastTrackEligible_iff scenarioB_def)

text \<open>
  Claim C9. \<^verbatim>\<open>setFinalRSStatus\<close> does not retry. If creating the patch fails, it
  returns an error that wraps the cause and carries the new replica set's name, and the
  world is untouched. If the one patch request fails, it returns such an error in the
  world that request left. If the request succeeds and the one cache update fails, it
  returns such an error in the world that update left. Otherwise it returns nil, and the
  world is the one in which the cache was updated with the object the store returned.
\<close>

theorem setFinalRSStatus_no_retry:
  assumes "newRS c = Some rs" and "generateRSFinalStatusPatch K c status = Inr pw"
  shows
    "(CreateTwoWayMergePatch B emptyReplicaSet pw emptyReplicaSet = Inl e \<longrightarrow>
        (\<exists>err. setFinalRSStatus B K status (c, w) = (Inr (Some err), (c, w)) \<and>
               sublist (Name (rs_ObjectMeta rs)) (Error err) \<and> Unwrap err = Some e)) \<and>
     (CreateTwoWayMergePatch B emptyReplicaSet pw emptyReplicaSet = Inr patch \<and>
      Patch B (Namespace (rs_ObjectMeta pw)) (Name (rs_ObjectMeta pw)) patch w = (Inl e, w1) \<longrightarrow>
        (\<exists>err. setFinalRSStatus B K status (c, w) =
                 (Inr (Some err),
                  (c\<lparr> log := log c @ [''Patching replicaset with patch: '' @ patch] \<rparr>, w1)) \<and>
               sublist (Name (rs_ObjectMeta rs)) (Error err) \<and> Unwrap err = Some e)) \<and>
     (CreateTwoWayMergePatch B emptyReplicaSet pw emptyReplicaSet = Inr patch \<and>
      Patch B (Namespace (rs_ObjectMeta pw)) (Name (rs_ObjectMeta pw)) patch w
        = (Inr updatedRS, w1) \<and>
      IndexerUpdate B updatedRS w1 = (Some e, w2) \<longrightarrow>
        (\<exists>err. setFinalRSStatus B K status (c, w) =
                 (Inr (Some err),
                  (c\<lparr> log := log c @ [''Patching replicaset with patch: '' @ patch] \<rparr>, w2)) \<and>
               sublist (Name (rs_ObjectMeta rs)) (Error err) \<and> Unwrap err = Some e)) \<and>
     (CreateTwoWayMergePatch B emptyReplicaSet pw emptyReplicaSet = Inr patch \<and>
      Patch B (Namespace (rs_ObjectMeta pw)) (Name (rs_ObjectMeta pw)) patch w
        = (Inr updatedRS, w1) \<and>
      IndexerUpdate B updatedRS w1 = (None, w2) \<longrightarrow>
        setFinalRSStatus B K status (c, w) =
          (Inr None, (c\<lparr> log := log c @ [''Patching replicaset with patch: '' @ patch] \<rparr>, w2)))"
  using assms by (simp add: setFinalRSStatus_def Let_def Errorf_carries_name)

theorem setFinalRSStatus_no_retry_witness:
  "setFinalRSStatus
      (exampleBase\<lparr> CreateTwoWayMergePatch := (\<lambda>orig new dataStruct. Inl (ErrorString ''unsupported'')) \<rparr>)
      exampleKeys ''aborted'' (exampleNewRSContext, (0, []))
     = (Inr (Some (Errorf ''error creating patch in setFinalRSStatus'' ''guestbook-6c54544bf9''
                     (ErrorString ''unsupported''))),
        (exampleNewRSContext, (0, []))) \<and>
   setFinalRSStatus
      (exampleBase\<lparr> Patch := (\<lambda>namespace name patch w.
                                 (Inl (ErrorString ''conflict''), (Suc (fst w), snd w))) \<rparr>)
      exampleKeys ''aborted'' (exampleNewRSContext, (0, []))
     = (Inr (Some (Errorf ''error patching replicaset in setFinalRSStatus'' ''guestbook-6c54544bf9''
                     (ErrorString ''conflict''))),
        (exampleLogged, (1, []))) \<and>
   setFinalRSStatus
      (exampleBase\<lparr> IndexerUpdate := (\<lambda>obj w. (Some (ErrorString ''no key''), w)) \<rparr>)
      exampleKeys ''aborted'' (exampleNewRSContext, (0, []))
     = (Inr (Some (Errorf ''error updating replicaset informer in setFinalRSStatus''
                     ''guestbook-6c54544bf9'' (ErrorString ''no key''))),
        (exampleLogged, (1, []))) \<and>
   setFinalRSStatus exampleBase exampleKeys ''aborted'' (exampleNewRSContext, (0, []))
     = (Inr None, (exampleLogged, (1, [exampleUpdatedRS]))) \<and>
   sublist ''guestbook-6c54544bf9''
     (Error (Errorf ''error patching replicaset in setFinalRSStatus'' ''guestbook-6c54544bf9''
               (ErrorString ''conflict'')))"
proof -
  have n: "newRS exampleNewRSContext = Some exampleRS"
    by (simp add: exampleNewRSContext_def)
  note t = setFinalRSStatus_no_retry [OF n exampleFinalPatch_generated]
  have nm: "Name (rs_ObjectMeta exampleRS) = ''guestbook-6c54544bf9''"
    by (simp add: exampleRS_def)
  have a: "setFinalRSStatus
      (exampleBase\<lparr> CreateTwoWayMergePatch := (\<lambda>orig new dataStruct. Inl (ErrorString ''unsupported'')) \<rparr>)
      exampleKeys ''aborted'' (exampleNewRSContext, (0, []))
     = (Inr (Some (Errorf ''error creating patch in setFinalRSStatus'' ''guestbook-6c54544bf9''
                     (ErrorString ''unsupported''))),
        (exampleNewRSContext, (0, [])))"
    using t [of "exampleBase\<lparr> CreateTwoWayMergePatch :=
                  (\<lambda>orig new dataStruct. Inl (ErrorString ''unsupported'')) \<rparr>"
               "ErrorString ''unsupported''" "(0, [])"]
    by (simp add: setFinalRSStatus_def n exampleFinalPatch_generated nm)
  have b: "setFinalRSStatus
      (exampleBase\<lparr> Patch := (\<lambda>namespace name patch w.
                                 (Inl (ErrorString ''conflict''), (Suc (fst w), snd w))) \<rparr>)
      exampleKeys ''aborted'' (exampleNewRSContext, (0, []))
     = (Inr (Some (Errorf ''error patching replicaset in setFinalRSStatus'' ''guestbook-6c54544bf9''
                     (ErrorString ''conflict''))),
        (exampleLogged, (1, [])))"
    using t [of "exampleBase\<lparr> Patch := (\<lambda>namespace name patch w.
                                 (Inl (ErrorString ''conflict''), (Suc (fst w), snd w))) \<rparr>"
               "ErrorString ''conflict''" "(0, [])" "''patch-bytes''" "(1, [])"]
    by (simp add: setFinalRSStatus_def n exampleFinalPatch_generated nm exampleBase_def
          exampleLogged_def Let_def)
  have c: "setFinalRSStatus
      (exampleBase\<lparr> IndexerUpdate := (\<lambda>obj w. (Some (ErrorString ''no key''), w)) \<rparr>)
      exampleKeys ''aborted'' (exampleNewRSContext, (0, []))
     = (Inr (Some (Errorf ''error updating replicaset informer in setFinalRSStatus''
                     ''guestbook-6c54544bf9'' (ErrorString ''no key''))),
        (exampleLogged, (1, [])))"
    using t [of "exampleBase\<lparr> IndexerUpdate := (\<lambda>obj w. (Some (ErrorString ''no key''), w)) \<rparr>"
               "ErrorString ''no key''" "(0, [])" "''patch-bytes''" "(1, [])" exampleUpdatedRS
               "(1, [])"]
    by (simp add: setFinalRSStatus_def n exampleFinalPatch_generated nm exampleBase_def
          exampleLogged_def Let_def)
  have d: "setFinalRSStatus exampleBase exampleKeys ''aborted'' (exampleNewRSContext, (0, []))
     = (Inr None, (exampleLogged, (1, [exampleUpdatedRS])))"
    using t [of exampleBase "ErrorString ''none''" "(0, [])" "''patch-bytes''" "(1, [])"
               exampleUpdatedRS "(1, [exampleUpdatedRS])"]
    by (simp add: exampleBase_def exampleLogged_def)
  have e: "sublist ''guestbook-6c54544bf9''
     (Error (Errorf ''error patching replicaset in setFinalRSStatus'' ''guestbook-6c54544bf9''
               (ErrorString ''conflict'')))"
    by (simp add: Errorf_carries_name)
  show ?thesis using a b c d e by simp
qed

text \<open>
  Claim C10. \<^verbatim>\<open>SetCurrentAnalysisRuns\<close> records the supplied current-run set, and a
  nil slot of it leaves the matching status sub-field with the value it had. For a
  rollout with neither the canary nor the blue-green strategy nothing but the current-run
  set of the context changes.
\<close>

theorem SetCurrentAnalysisRuns_never_clears:
  "currentArs (SetCurrentAnalysisRuns currARs c) = currARs \<and>
   (CanaryBackground currARs = None \<longrightarrow>
      CurrentBackgroundAnalysisRunStatus (status_Canary (newStatus (SetCurrentAnalysisRuns currARs c)))
        = CurrentBackgroundAnalysisRunStatus (status_Canary (newStatus c))) \<and>
   (CanaryStep currARs = None \<longrightarrow>
      CurrentStepAnalysisRunStatus (status_Canary (newStatus (SetCurrentAnalysisRuns currARs c)))
        = CurrentStepAnalysisRunStatus (status_Canary (newStatus c))) \<and>
   (BlueGreenPrePromotion currARs = None \<longrightarrow>
      PrePromotionAnalysisRunStatus (status_BlueGreen (newStatus (SetCurrentAnalysisRuns currARs c)))
        = PrePromotionAnalysisRunStatus (status_BlueGreen (newStatus c))) \<and>
   (BlueGreenPostPromotion currARs = None \<longrightarrow>
      PostPromotionAnalysisRunStatus (status_BlueGreen (newStatus (SetCurrentAnalysisRuns currARs c)))
        = PostPromotionAnalysisRunStatus (status_BlueGreen (newStatus c))) \<and>
   (Canary (Strategy (ro_Spec (rollout c))) = None \<and>
    BlueGreen (Strategy (ro_Spec (rollout c))) = None \<longrightarrow>
      SetCurrentAnalysisRuns currARs c = c\<lparr> currentArs := currARs \<rparr>)"
  by (simp add: SetCurrentAnalysisRuns_def Let_def setCanaryRuns_nil setBlueGreenRuns_nil)

theorem SetCurrentAnalysisRuns_never_clears_witness:
  "CanaryBackground stepRunOnly = None \<and>
   CurrentBackgroundAnalysisRunStatus
     (status_Canary (newStatus (SetCurrentAnalysisRuns stepRunOnly exampleBusyContext)))
     = Some (oldStatus ''background-3'') \<and>
   CurrentStepAnalysisRunStatus
     (status_Canary (newStatus (SetCurrentAnalysisRuns stepRunOnly exampleBusyContext)))
     = Some (runStatus exampleRun) \<and>
   CanaryStep noRuns = None \<and>
   CurrentStepAnalysisRunStatus
     (status_Canary (newStatus (SetCurrentAnalysisRuns noRuns exampleBusyContext)))
     = Some (oldStatus ''step-3'') \<and>
   BlueGreenPrePromotion stepRunOnly = None \<and>
   PrePromotionAnalysisRunStatus
     (status_BlueGreen (newStatus (SetCurrentAnalysisRuns stepRunOnly exampleBusyContext)))
     = Some (oldStatus ''pre-3'') \<and>
   BlueGreenPostPromotion stepRunOnly = None \<and>
   PostPromotionAnalysisRunStatus
     (status_BlueGreen (newStatus (SetCurrentAnalysisRuns stepRunOnly exampleBusyContext)))
     = Some (oldStatus ''post-3'') \<and>
   Canary (Strategy (ro_Spec (rollout exampleNoStrategyContext))) = None \<and>
   BlueGreen (Strategy (ro_Spec (rollout exampleNoStrategyContext))) = None \<and>
   SetCurrentAnalysisRuns stepRunOnly exampleNoStrategyContext
     = exampleNoStrategyContext\<lparr> currentArs := stepRunOnly \<rparr>"
proof -
  have slots: "CanaryBackground stepRunOnly = None" "CanaryStep noRuns = None"
    "BlueGreenPrePromotion stepRunOnly = None" "BlueGreenPostPromotion stepRunOnly = None"
    "CanaryStep stepRunOnly = Some exampleRun"
    by (simp_all add: stepRunOnly_def noRuns_def)
  have none: "Canary (Strategy (ro_Spec (rollout exampleNoStrategyContext))) = None"
    "BlueGreen (Strategy (ro_Spec (rollout exampleNoStrategyContext))) = None"
    by (simp_all add: exampleNoStrategyContext_def)
  have canary: "Canary (Strategy (ro_Spec (rollout exampleBusyContext))) \<noteq> None"
    by (simp add: exampleBusyContext_def exampleContext_def exampleRollout_def)
  have step: "CurrentStepAnalysisRunStatus
     (status_Canary (newStatus (SetCurrentAnalysisRuns stepRunOnly exampleBusyContext)))
     = Some (runStatus exampleRun)"
    using canary slots by (simp add: SetCurrentAnalysisRuns_def Let_def setCanaryRuns_def)
  have old: "status_Canary (newStatus exampleBusyContext) =
       \<lparr> CurrentStepAnalysisRunStatus = Some (oldStatus ''step-3''),
         CurrentBackgroundAnalysisRunStatus = Some (oldStatus ''background-3''),
         CurrentExperiment = '''' \<rparr>"
    "status_BlueGreen (newStatus exampleBusyContext) =
       \<lparr> PrePromotionAnalysisRunStatus = Some (oldStatus ''pre-3''),
         PostPromotionAnalysisRunStatus = Some (oldStatus ''post-3'') \<rparr>"
    by (simp_all add: exampleBusyContext_def)
  show ?thesis
    using SetCurrentAnalysisRuns_never_clears [of stepRunOnly exampleBusyContext]
          SetCurrentAnalysisRuns_never_clears [of noRuns exampleBusyContext]
          SetCurrentAnalysisRuns_never_clears [of stepRunOnly exampleNoStrategyContext]
          slots none step old
    by simp
qed

end
